theory Spec2Isabelle
  imports Complex_Main "HOL-Library.Sublist"
begin

section \<open>The Fireworks inference adapter\<close>

text \<open>
  A shallow embedding of \<^verbatim>\<open>FireworksInferenceAdapter\<close>
  (\<^verbatim>\<open>llama_stack/providers/remote/inference/fireworks/fireworks.py\<close>).
  Exceptions are values of the type \<open>error\<close> and a raising function returns a sum
  (\<open>Inl\<close> the exception). Python dictionaries that are merged or tested for a key are
  maps \<open>string \<rightharpoonup> value\<close>; a dictionary literal stored as a value is an association
  list in the order the source writes it. Provider calls are recorded in a trace that every
  dispatching function returns next to its result.
\<close>

subsection \<open>Values and exceptions\<close>

text \<open>
  Python values that end up in a call payload. A float is a rational: the adapter and its
  collaborators pass floats on and compare them with constants, and compute nothing with
  them. \<open>PyObj\<close> holds what the adapter passes through without looking inside.
\<close>

datatype 'o pyval =
    PyNone
  | PyBool bool
  | PyInt int
  | PyFloat rat
  | PyStr string
  | PyList "'o pyval list"
  | PyDict "(string \<times> 'o pyval) list"
  | PyObj 'o

type_synonym 'o pydict = "string \<rightharpoonup> 'o pyval"

text \<open>
  The exceptions the adapter raises itself are Python built-ins: \<^verbatim>\<open>ValueError\<close> with a
  message (missing credential, unknown response format), \<^verbatim>\<open>AssertionError\<close> with a
  message (media in a completion request) and \<^verbatim>\<open>NotImplementedError\<close> (embeddings).
  \<open>AttributeError\<close> is what reading an attribute that an object lacks raises,
  \<open>ValidationError\<close> what making a request object from a field it does not accept
  raises, and \<open>ExternalError\<close> stands for anything raised by a collaborator (model store,
  prompt adapter, provider client).
\<close>

datatype error =
    ValueError string
  | AssertionError string
  | NotImplementedError
  | AttributeError string
  | ValidationError string
  | ExternalError string

subsection \<open>Requests\<close>

text \<open>
  \<^verbatim>\<open>InterleavedTextMedia\<close> is a string, an image, or a list of strings and images.
\<close>

datatype 'o segment = Text string | ImageMedia 'o

datatype 'o interleaved = Single "'o segment" | Many "'o segment list"

datatype 'o message = Message (role: string) (msg_content: "'o interleaved")

text \<open>
  A response format is an object with a \<^verbatim>\<open>type\<close> tag and, depending on the variant, an
  attribute \<^verbatim>\<open>json_schema\<close> or \<^verbatim>\<open>bnf\<close> (\<open>fmt_bnf\<close> here, \<open>bnf\<close> being a
  keyword); an attribute the object lacks is \<open>None\<close>.
\<close>

datatype 'o response_format =
  ResponseFormat (fmt_type: string) (json_schema: "'o pyval option") (fmt_bnf: "'o pyval option")

text \<open>
  The union \<^verbatim>\<open>Union[ChatCompletionRequest, CompletionRequest]\<close>, built by
  \<^verbatim>\<open>completion\<close> and \<^verbatim>\<open>chat_completion\<close> with exactly these fields. \<open>'sp\<close> is
  \<^verbatim>\<open>SamplingParams\<close>; log-probability configuration, tool definitions, tool choice and
  tool prompt format are passed through as opaque objects.
\<close>

datatype ('sp, 'o) request =
    is_CompletionRequest: CompletionRequest
      (model: string)
      (content: "'o interleaved")
      (sampling_params: "'sp option")
      (response_format: "'o response_format option")
      (stream: bool)
      (logprobs: "'o option")
  | is_ChatCompletionRequest: ChatCompletionRequest
      (model: string)
      (messages: "'o message list")
      (sampling_params: "'sp option")
      (tools: "'o list")
      (tool_choice: "'o option")
      (tool_prompt_format: "'o option")
      (response_format: "'o response_format option")
      (stream: bool)
      (logprobs: "'o option")


subsection \<open>Collaborators\<close>

text \<open>
  What the adapter imports or inherits and this file does not contain is a field of the
  record \<open>adapter\<close>, next to the adapter's own configuration. The formatter
  \<^verbatim>\<open>self.formatter\<close> is fixed at construction and is part of the functions that take it.
\<close>

datatype provider_data = ProviderData (fireworks_api_key: "string option")

datatype model_entry = Model (model_identifier: string) (provider_resource_id: string)

text \<open>
  A client object, with the key it sends. The class \<^verbatim>\<open>Fireworks\<close> of the provider's
  library makes it: \<^verbatim>\<open>Fireworks(api_key=k)\<close> is the field \<open>Fireworks_init\<close> of the record
  below, which may raise and need not keep the key it is given.
\<close>

datatype client = Fireworks (api_key: string)

text \<open>
  The three provider methods the adapter calls: \<^verbatim>\<open>completion.acreate\<close>,
  \<^verbatim>\<open>completion.create\<close> and \<^verbatim>\<open>chat.completions.acreate\<close>. A call is the client
  it is made on, the method, and the keyword arguments.
\<close>

datatype endpoint = CompletionAcreate | CompletionCreate | ChatCompletionsAcreate

datatype 'o call = Call (call_client: client) (call_endpoint: endpoint) (call_params: "'o pydict")

text \<open>
  A finite lazy sequence that was iterated to its end: the items it yielded, in order, and
  the exception that ended it, if one did.
\<close>

type_synonym 'o iterated = "'o list \<times> error option"

record ('sp, 'o) adapter =
  config_api_key :: "string option"
  get_request_provider_data :: "provider_data option"
  Fireworks_init :: "string \<Rightarrow> error + client"
  model_store_get_model :: "string \<Rightarrow> error + model_entry"
  get_llama_model :: "string \<Rightarrow> string option"
  get_sampling_options :: "'sp option \<Rightarrow> 'o pydict"
  completion_request_to_prompt :: "('sp, 'o) request \<Rightarrow> error + string"
  chat_completion_request_to_prompt :: "('sp, 'o) request \<Rightarrow> string option \<Rightarrow> error + string"
  convert_message_to_dict :: "'o message \<Rightarrow> error + 'o pyval"
  provider_response :: "'o call \<Rightarrow> error + 'o"
  provider_stream :: "'o call \<Rightarrow> 'o iterated"
  process_completion_response :: "'o \<Rightarrow> error + 'o"
  process_chat_completion_response :: "'o \<Rightarrow> error + 'o"
  process_completion_stream_response :: "'o iterated \<Rightarrow> 'o iterated"
  process_chat_completion_stream_response :: "'o iterated \<Rightarrow> 'o iterated"

text \<open>
  Modelled from the spec: \<^verbatim>\<open>request_has_media\<close> of
  \<^verbatim>\<open>llama_stack.providers.utils.inference.prompt_adapter\<close> is not among the sources.
  The specification (4.1) has it "determine whether any content segment is non-text
  media": of the content of a completion request, of the content of any message of a chat
  request.
\<close>

fun segment_is_media :: "'o segment \<Rightarrow> bool" where
  "segment_is_media (Text _) = False"
| "segment_is_media (ImageMedia _) = True"

fun content_has_media :: "'o interleaved \<Rightarrow> bool" where
  "content_has_media (Single c) = segment_is_media c"
| "content_has_media (Many cs) = list_ex segment_is_media cs"

definition request_has_media :: "('sp, 'o) request \<Rightarrow> bool" where
  "request_has_media request =
     (if is_ChatCompletionRequest request
      then list_ex (\<lambda>m. content_has_media (msg_content m)) (messages request)
      else content_has_media (content request))"

text \<open>
  Modelled from the spec: the values of \<^verbatim>\<open>ResponseFormatType.json_schema\<close> and
  \<^verbatim>\<open>ResponseFormatType.grammar\<close> (\<^verbatim>\<open>llama_stack.apis.inference\<close>, not among the
  sources) are the tags \<open>json_schema\<close> and \<open>grammar\<close> of the specification's tagged
  union (3).
\<close>

definition ResponseFormatType_json_schema :: string where
  "ResponseFormatType_json_schema = ''json_schema''"

definition ResponseFormatType_grammar :: string where
  "ResponseFormatType_grammar = ''grammar''"

text \<open>
  Modelled from the spec: \<^verbatim>\<open>get_sampling_options\<close> of
  \<^verbatim>\<open>llama_stack.providers.utils.inference.openai_compat\<close> and the class
  \<^verbatim>\<open>SamplingParams\<close> are not among the sources. The specification (3) has the sampling
  parameters be the "normalized numeric/enum sampling configuration (temperature, top-p,
  max tokens, etc.)" and (4.2) has them converted into provider options. As the
  collaborator does it: each of \<open>temperature\<close>, \<open>top_p\<close>, \<open>top_k\<close> and \<open>max_tokens\<close>
  becomes an option when its value is truthy (not \<^verbatim>\<open>None\<close> and not zero), and
  \<open>repetition_penalty\<close> becomes \<open>repeat_penalty\<close> when it is neither \<^verbatim>\<open>None\<close> nor
  \<open>1.0\<close>; the defaults of \<^verbatim>\<open>SamplingParams()\<close> are temperature \<open>0.0\<close>, top-p
  \<open>0.95\<close>, top-k \<open>0\<close>, max tokens \<open>0\<close> and repetition penalty \<open>1.0\<close>. The adapter itself
  is stated over any \<open>get_sampling_options\<close>, the field above; this one is for the
  scenario that names the default parameters.
\<close>

record SamplingParams =
  temperature :: "rat option"
  top_p :: "rat option"
  top_k :: "int option"
  max_tokens :: "int option"
  repetition_penalty :: "rat option"

definition SamplingParams_default :: SamplingParams where
  "SamplingParams_default =
     \<lparr>temperature = Some 0, top_p = Some (95 / 100), top_k = Some 0, max_tokens = Some 0,
      repetition_penalty = Some 1\<rparr>"

definition set_if_truthy_float :: "'o pydict \<Rightarrow> string \<Rightarrow> rat option \<Rightarrow> 'o pydict" where
  "set_if_truthy_float options attr v =
     (case v of
        None \<Rightarrow> options
      | Some x \<Rightarrow> if x = 0 then options else options(attr \<mapsto> PyFloat x))"

definition set_if_truthy_int :: "'o pydict \<Rightarrow> string \<Rightarrow> int option \<Rightarrow> 'o pydict" where
  "set_if_truthy_int options attr v =
     (case v of
        None \<Rightarrow> options
      | Some x \<Rightarrow> if x = 0 then options else options(attr \<mapsto> PyInt x))"

definition openai_compat_get_sampling_options :: "SamplingParams option \<Rightarrow> 'o pydict" where
  "openai_compat_get_sampling_options sp =
     (case sp of
        None \<Rightarrow> Map.empty
      | Some params \<Rightarrow>
          (let options = set_if_truthy_float Map.empty ''temperature'' (temperature params);
               options = set_if_truthy_float options ''top_p'' (top_p params);
               options = set_if_truthy_int options ''top_k'' (top_k params);
               options = set_if_truthy_int options ''max_tokens'' (max_tokens params)
           in case repetition_penalty params of
                None \<Rightarrow> options
              | Some r \<Rightarrow> if r = 1 then options else options(''repeat_penalty'' \<mapsto> PyFloat r)))"

subsection \<open>Credentials\<close>

definition missing_key_message :: string where
  "missing_key_message =
     ''Pass Fireworks API Key in the header X-LlamaStack-ProviderData as { ''
     @ [CHR 0x22] @ ''fireworks_api_key'' @ [CHR 0x22] @ '': <your api key>}''"

text \<open>
  \<^verbatim>\<open>_get_client\<close>. \<^verbatim>\<open>not provider_data.fireworks_api_key\<close> holds of \<^verbatim>\<open>None\<close> and of
  the empty string.
\<close>

definition get_client :: "('sp, 'o) adapter \<Rightarrow> error + client" where
  "get_client self =
     (case config_api_key self of
        Some k \<Rightarrow> Fireworks_init self k
      | None \<Rightarrow>
          (case get_request_provider_data self of
             None \<Rightarrow> Inl (ValueError missing_key_message)
           | Some provider_data \<Rightarrow>
               (case fireworks_api_key provider_data of
                  None \<Rightarrow> Inl (ValueError missing_key_message)
                | Some k \<Rightarrow>
                    if k = [] then Inl (ValueError missing_key_message)
                    else Fireworks_init self k)))"

subsection \<open>Options\<close>

text \<open>\<^verbatim>\<open>dict.setdefault\<close>: the key keeps the value it has, whatever that is.\<close>

definition setdefault :: "'o pydict \<Rightarrow> string \<Rightarrow> 'o pyval \<Rightarrow> 'o pydict" where
  "setdefault d k v = (case d k of None \<Rightarrow> d(k \<mapsto> v) | Some _ \<Rightarrow> d)"

text \<open>
  \<^verbatim>\<open>_build_options\<close>. A response format is an object without \<^verbatim>\<open>__bool__\<close>, so
  \<^verbatim>\<open>if fmt\<close> asks whether one was given.
\<close>

definition build_options ::
  "('sp, 'o) adapter \<Rightarrow> 'sp option \<Rightarrow> 'o response_format option \<Rightarrow> error + 'o pydict" where
  "build_options self sp fmt =
     (let options = setdefault (get_sampling_options self sp) ''max_tokens'' (PyInt 512)
      in case fmt of
           None \<Rightarrow> Inr options
         | Some f \<Rightarrow>
             if fmt_type f = ResponseFormatType_json_schema then
               (case json_schema f of
                  None \<Rightarrow> Inl (AttributeError ''json_schema'')
                | Some s \<Rightarrow>
                    Inr (options(''response_format'' \<mapsto>
                      PyDict [(''type'', PyStr ''json_object''), (''schema'', s)])))
             else if fmt_type f = ResponseFormatType_grammar then
               (case fmt_bnf f of
                  None \<Rightarrow> Inl (AttributeError ''bnf'')
                | Some g \<Rightarrow>
                    Inr (options(''response_format'' \<mapsto>
                      PyDict [(''type'', PyStr ''grammar''), (''grammar'', g)])))
             else Inl (ValueError (''Unknown response format '' @ fmt_type f)))"

subsection \<open>The request builder\<close>

definition BOS :: string where
  "BOS = ''<|begin_of_text|>''"

text \<open>
  The comprehension \<^verbatim>\<open>[await convert_message_to_dict(m) for m in request.messages]\<close>:
  the messages are converted in order and the first failure ends it.
\<close>

fun convert_messages :: "('sp, 'o) adapter \<Rightarrow> 'o message list \<Rightarrow> error + 'o pyval list" where
  "convert_messages self [] = Inr []"
| "convert_messages self (m # ms) =
     (case convert_message_to_dict self m of
        Inl e \<Rightarrow> Inl e
      | Inr d \<Rightarrow>
          (case convert_messages self ms of
             Inl e \<Rightarrow> Inl e
           | Inr ds \<Rightarrow> Inr (d # ds)))"

text \<open>
  The first part of \<^verbatim>\<open>_get_params\<close>: \<^verbatim>\<open>input_dict\<close> after the branch on the request's
  class and on \<^verbatim>\<open>media_present\<close>.
\<close>

definition input_dict_of :: "('sp, 'o) adapter \<Rightarrow> ('sp, 'o) request \<Rightarrow> error + 'o pydict" where
  "input_dict_of self request =
     (let media_present = request_has_media request
      in if is_ChatCompletionRequest request then
           if media_present then
             (case convert_messages self (messages request) of
                Inl e \<Rightarrow> Inl e
              | Inr ds \<Rightarrow> Inr [''messages'' \<mapsto> PyList ds])
           else
             (case chat_completion_request_to_prompt self request
                     (get_llama_model self (model request)) of
                Inl e \<Rightarrow> Inl e
              | Inr p \<Rightarrow> Inr [''prompt'' \<mapsto> PyStr p])
         else
           if media_present then
             Inl (AssertionError ''Fireworks does not support media for Completion requests'')
           else
             (case completion_request_to_prompt self request of
                Inl e \<Rightarrow> Inl e
              | Inr p \<Rightarrow> Inr [''prompt'' \<mapsto> PyStr p]))"

text \<open>
  The second part: \<^verbatim>\<open>startswith\<close> and the slice \<^verbatim>\<open>[len("<|begin_of_text|>"):]\<close>. The
  value under \<^verbatim>\<open>"prompt"\<close> is always a string, the two renderers returning one.
\<close>

definition strip_bos :: "'o pydict \<Rightarrow> 'o pydict" where
  "strip_bos input_dict =
     (case input_dict ''prompt'' of
        Some (PyStr p) \<Rightarrow>
          if prefix BOS p then input_dict(''prompt'' \<mapsto> PyStr (drop (length BOS) p))
          else input_dict
      | _ \<Rightarrow> input_dict)"

text \<open>
  \<^verbatim>\<open>_get_params\<close>. In the returned dictionary display a later entry replaces an earlier
  one with the same key, so the options are merged last, over everything else.
\<close>

definition get_params :: "('sp, 'o) adapter \<Rightarrow> ('sp, 'o) request \<Rightarrow> error + 'o pydict" where
  "get_params self request =
     (case input_dict_of self request of
        Inl e \<Rightarrow> Inl e
      | Inr d \<Rightarrow>
          (let input_dict = strip_bos d
           in case build_options self (sampling_params request) (response_format request) of
                Inl e \<Rightarrow> Inl e
              | Inr options \<Rightarrow>
                  Inr ((([''model'' \<mapsto> PyStr (model request)] ++ input_dict)
                          (''stream'' \<mapsto> PyBool (stream request))) ++ options)))"

subsection \<open>The dispatcher\<close>

text \<open>
  Every function that may call the provider returns the calls it issued, in order, next to
  its result.
\<close>

definition nonstream_completion ::
  "('sp, 'o) adapter \<Rightarrow> ('sp, 'o) request \<Rightarrow> 'o call list \<times> (error + 'o)" where
  "nonstream_completion self request =
     (case get_params self request of
        Inl e \<Rightarrow> ([], Inl e)
      | Inr params \<Rightarrow>
          (case get_client self of
             Inl e \<Rightarrow> ([], Inl e)
           | Inr c \<Rightarrow>
               (let call = Call c CompletionAcreate params
                in case provider_response self call of
                     Inl e \<Rightarrow> ([call], Inl e)
                   | Inr r \<Rightarrow> ([call], process_completion_response self r))))"

definition nonstream_chat_completion ::
  "('sp, 'o) adapter \<Rightarrow> ('sp, 'o) request \<Rightarrow> 'o call list \<times> (error + 'o)" where
  "nonstream_chat_completion self request =
     (case get_params self request of
        Inl e \<Rightarrow> ([], Inl e)
      | Inr params \<Rightarrow>
          (case get_client self of
             Inl e \<Rightarrow> ([], Inl e)
           | Inr c \<Rightarrow>
               (let call = (if ''messages'' \<in> dom params
                            then Call c ChatCompletionsAcreate params
                            else Call c CompletionAcreate params)
                in case provider_response self call of
                     Inl e \<Rightarrow> ([call], Inl e)
                   | Inr r \<Rightarrow> ([call], process_chat_completion_response self r))))"

text \<open>
  The inner generators \<^verbatim>\<open>_to_async_generator\<close>, iterated to their end: the client is
  made, then the call, then the chunks are yielded in order.
\<close>

definition to_async_generator_completion ::
  "('sp, 'o) adapter \<Rightarrow> 'o pydict \<Rightarrow> 'o call list \<times> 'o iterated" where
  "to_async_generator_completion self params =
     (case get_client self of
        Inl e \<Rightarrow> ([], ([], Some e))
      | Inr c \<Rightarrow>
          (let call = Call c CompletionCreate params
           in ([call], provider_stream self call)))"

definition to_async_generator_chat ::
  "('sp, 'o) adapter \<Rightarrow> 'o pydict \<Rightarrow> 'o call list \<times> 'o iterated" where
  "to_async_generator_chat self params =
     (case get_client self of
        Inl e \<Rightarrow> ([], ([], Some e))
      | Inr c \<Rightarrow>
          (let call = (if ''messages'' \<in> dom params
                       then Call c ChatCompletionsAcreate params
                       else Call c CompletionCreate params)
           in ([call], provider_stream self call)))"

text \<open>
  \<^verbatim>\<open>_stream_completion\<close> and \<^verbatim>\<open>_stream_chat_completion\<close> are async generator
  functions: calling one runs none of its body and returns a generator object that holds
  the request. \<open>iterate\<close> is that object iterated to its end: the body runs, the normaliser
  consumes the inner generator (4.4: "each raw chunk from any streaming path is forwarded,
  in arrival order, to the Response Normalizer"), and what it yields is yielded.
\<close>

datatype ('sp, 'o) async_generator =
    StreamCompletion "('sp, 'o) request"
  | StreamChatCompletion "('sp, 'o) request"

fun iterate ::
  "('sp, 'o) adapter \<Rightarrow> ('sp, 'o) async_generator \<Rightarrow> 'o call list \<times> 'o iterated" where
  "iterate self (StreamCompletion request) =
     (case get_params self request of
        Inl e \<Rightarrow> ([], ([], Some e))
      | Inr params \<Rightarrow>
          (case to_async_generator_completion self params of
             (calls, chunks) \<Rightarrow> (calls, process_completion_stream_response self chunks)))"
| "iterate self (StreamChatCompletion request) =
     (case get_params self request of
        Inl e \<Rightarrow> ([], ([], Some e))
      | Inr params \<Rightarrow>
          (case to_async_generator_chat self params of
             (calls, chunks) \<Rightarrow> (calls, process_chat_completion_stream_response self chunks)))"

subsection \<open>The public operations\<close>

datatype ('sp, 'o) outcome = Response 'o | Generator "('sp, 'o) async_generator"

text \<open>
  Modelled from the spec: the classes \<^verbatim>\<open>CompletionRequest\<close> and
  \<^verbatim>\<open>ChatCompletionRequest\<close> (\<^verbatim>\<open>llama_stack.apis.inference\<close>) are not among the
  sources. They check their fields when an object is made, which \<^verbatim>\<open>completion\<close> and
  \<^verbatim>\<open>chat_completion\<close> do before they look at \<^verbatim>\<open>stream\<close>. The other fields being typed
  here, the check left is that of the response format, of which the specification (3) says
  "tagged union {none, json_schema(schema), grammar(bnf)}. Invariant: exactly one tag
  active; unknown tag is a fatal configuration error": a format is accepted when its tag is
  \<open>json_schema\<close> or \<open>grammar\<close> and it has the attribute of its tag.
\<close>

definition response_format_valid :: "'o response_format option \<Rightarrow> bool" where
  "response_format_valid fmt =
     (case fmt of
        None \<Rightarrow> True
      | Some f \<Rightarrow>
          (fmt_type f = ResponseFormatType_json_schema \<and> json_schema f \<noteq> None) \<or>
          (fmt_type f = ResponseFormatType_grammar \<and> fmt_bnf f \<noteq> None))"

definition validated :: "('sp, 'o) request \<Rightarrow> error + ('sp, 'o) request" where
  "validated request =
     (if response_format_valid (response_format request) then Inr request
      else Inl (ValidationError ''response_format''))"

definition completion ::
  "('sp, 'o) adapter \<Rightarrow> string \<Rightarrow> 'o interleaved \<Rightarrow> 'sp option \<Rightarrow> 'o response_format option
     \<Rightarrow> bool \<Rightarrow> 'o option \<Rightarrow> 'o call list \<times> (error + ('sp, 'o) outcome)" where
  "completion self model_id cont sp fmt strm lp =
     (case model_store_get_model self model_id of
        Inl e \<Rightarrow> ([], Inl e)
      | Inr m \<Rightarrow>
          (case validated (CompletionRequest (provider_resource_id m) cont sp fmt strm lp) of
             Inl e \<Rightarrow> ([], Inl e)
           | Inr request \<Rightarrow>
               if strm then ([], Inr (Generator (StreamCompletion request)))
               else (case nonstream_completion self request of
                       (calls, Inl e) \<Rightarrow> (calls, Inl e)
                     | (calls, Inr r) \<Rightarrow> (calls, Inr (Response r)))))"

definition chat_completion ::
  "('sp, 'o) adapter \<Rightarrow> string \<Rightarrow> 'o message list \<Rightarrow> 'sp option \<Rightarrow> 'o list option
     \<Rightarrow> 'o option \<Rightarrow> 'o option \<Rightarrow> 'o response_format option \<Rightarrow> bool \<Rightarrow> 'o option
     \<Rightarrow> 'o call list \<times> (error + ('sp, 'o) outcome)" where
  "chat_completion self model_id msgs sp tls choice tpf fmt strm lp =
     (case model_store_get_model self model_id of
        Inl e \<Rightarrow> ([], Inl e)
      | Inr m \<Rightarrow>
          (case validated (ChatCompletionRequest (provider_resource_id m) msgs sp
                             (case tls of None \<Rightarrow> [] | Some ts \<Rightarrow> ts)
                             choice tpf fmt strm lp) of
             Inl e \<Rightarrow> ([], Inl e)
           | Inr request \<Rightarrow>
               if strm then ([], Inr (Generator (StreamChatCompletion request)))
               else (case nonstream_chat_completion self request of
                       (calls, Inl e) \<Rightarrow> (calls, Inl e)
                     | (calls, Inr r) \<Rightarrow> (calls, Inr (Response r)))))"

definition embeddings ::
  "('sp, 'o) adapter \<Rightarrow> string \<Rightarrow> 'o interleaved list \<Rightarrow> 'o call list \<times> (error + 'o)" where
  "embeddings self model_id contents = ([], Inl NotImplementedError)"

subsection \<open>Concrete adapters\<close>

text \<open>
  An adapter on which the theorems below are instantiated. Sampling parameters are a number,
  the maximum of tokens, \<open>0\<close> for none given; opaque objects are numbers; the key comes with
  the request and the client class refuses an empty key; both renderers put the marker in
  front of a fixed text; the completion normaliser yields what it is given and then a closing
  event, the chat normaliser an opening event and then what it is given.
\<close>

definition example_adapter :: "(nat, nat) adapter" where
  "example_adapter =
     \<lparr>config_api_key = None,
      get_request_provider_data = Some (ProviderData (Some ''fw-key'')),
      Fireworks_init =
        (\<lambda>k. if k = [] then Inl (ExternalError ''no api key'') else Inr (Fireworks k)),
      model_store_get_model = (\<lambda>model_id. Inr (Model model_id (''fireworks/'' @ model_id))),
      get_llama_model = (\<lambda>_. None),
      get_sampling_options =
        (\<lambda>sp. case sp of None \<Rightarrow> Map.empty
               | Some n \<Rightarrow> if n = 0 then Map.empty else [''max_tokens'' \<mapsto> PyInt (int n)]),
      completion_request_to_prompt = (\<lambda>_. Inr (BOS @ ''Hello'')),
      chat_completion_request_to_prompt = (\<lambda>_ _. Inr (BOS @ ''Hi'')),
      convert_message_to_dict = (\<lambda>m. Inr (PyDict [(''role'', PyStr (role m))])),
      provider_response = (\<lambda>_. Inr 7),
      provider_stream = (\<lambda>_. ([1, 2], None)),
      process_completion_response = Inr,
      process_chat_completion_response = Inr,
      process_completion_stream_response =
        (\<lambda>(chunks, e). (if e = None then chunks @ [0] else chunks, e)),
      process_chat_completion_stream_response = (\<lambda>(chunks, e). (0 # chunks, e))\<rparr>"

text \<open>
  The same adapter over \<^verbatim>\<open>SamplingParams\<close>, with the sampling options of the
  collaborator.
\<close>

definition openai_compat_adapter :: "(SamplingParams, nat) adapter" where
  "openai_compat_adapter =
     \<lparr>config_api_key = None,
      get_request_provider_data = Some (ProviderData (Some ''fw-key'')),
      Fireworks_init =
        (\<lambda>k. if k = [] then Inl (ExternalError ''no api key'') else Inr (Fireworks k)),
      model_store_get_model = (\<lambda>model_id. Inr (Model model_id (''fireworks/'' @ model_id))),
      get_llama_model = (\<lambda>_. None),
      get_sampling_options = openai_compat_get_sampling_options,
      completion_request_to_prompt = (\<lambda>_. Inr (BOS @ ''Hello'')),
      chat_completion_request_to_prompt = (\<lambda>_ _. Inr (BOS @ ''Hi'')),
      convert_message_to_dict = (\<lambda>m. Inr (PyDict [(''role'', PyStr (role m))])),
      provider_response = (\<lambda>_. Inr 7),
      provider_stream = (\<lambda>_. ([1, 2], None)),
      process_completion_response = Inr,
      process_chat_completion_response = Inr,
      process_completion_stream_response =
        (\<lambda>(chunks, e). (if e = None then chunks @ [0] else chunks, e)),
      process_chat_completion_stream_response = (\<lambda>(chunks, e). (0 # chunks, e))\<rparr>"

section \<open>Properties\<close>

subsection \<open>Auxiliary facts\<close>

lemma convert_messages_map:
  "convert_messages self ms = Inr ds \<Longrightarrow> map (convert_message_to_dict self) ms = map Inr ds"
  by (induction ms arbitrary: ds) (auto split: sum.splits)

lemma setdefault_other: "k' \<noteq> k \<Longrightarrow> setdefault d k v k' = d k'"
  by (simp add: setdefault_def split: option.splits)

lemma setdefault_same:
  "setdefault d k v k = (case d k of None \<Rightarrow> Some v | Some w \<Rightarrow> Some w)"
  by (simp add: setdefault_def split: option.splits)

lemma build_options_other:
  "build_options self sp fmt = Inr options \<Longrightarrow> k \<noteq> ''max_tokens''
     \<Longrightarrow> k \<noteq> ''response_format'' \<Longrightarrow> options k = get_sampling_options self sp k"
  by (auto simp: build_options_def Let_def setdefault_other split: option.splits if_splits)

lemma build_options_max_tokens_lookup:
  "build_options self sp fmt = Inr options
     \<Longrightarrow> options ''max_tokens'' =
           (case get_sampling_options self sp ''max_tokens'' of
              None \<Rightarrow> Some (PyInt 512) | Some v \<Rightarrow> Some v)"
  by (auto simp: build_options_def Let_def setdefault_same split: option.splits if_splits)

lemma input_dict_of_chat_cases:
  assumes "is_ChatCompletionRequest request" "input_dict_of self request = Inr d"
  shows "(request_has_media request \<longrightarrow>
           (\<exists>ds. convert_messages self (messages request) = Inr ds \<and>
                 d = [''messages'' \<mapsto> PyList ds])) \<and>
         (\<not> request_has_media request \<longrightarrow>
           (\<exists>p. chat_completion_request_to_prompt self request
                   (get_llama_model self (model request)) = Inr p \<and>
                d = [''prompt'' \<mapsto> PyStr p]))"
  using assms by (auto simp: input_dict_of_def Let_def split: sum.splits if_splits)

lemma input_dict_of_completion_cases:
  assumes "\<not> is_ChatCompletionRequest request" "input_dict_of self request = Inr d"
  shows "\<not> request_has_media request \<and>
         (\<exists>p. completion_request_to_prompt self request = Inr p \<and>
              d = [''prompt'' \<mapsto> PyStr p])"
  using assms by (auto simp: input_dict_of_def Let_def split: sum.splits if_splits)

lemma input_dict_of_shape:
  assumes "input_dict_of self request = Inr d"
  shows "(\<exists>p. d = [''prompt'' \<mapsto> PyStr p]) \<or> (\<exists>ds. d = [''messages'' \<mapsto> PyList ds])"
  using assms by (auto simp: input_dict_of_def Let_def split: sum.splits if_splits)

lemma strip_bos_prompt:
  "strip_bos [''prompt'' \<mapsto> PyStr p] =
     [''prompt'' \<mapsto> PyStr (if prefix BOS p then drop (length BOS) p else p)]"
  by (simp add: strip_bos_def)

lemma strip_bos_messages: "strip_bos [''messages'' \<mapsto> v] = [''messages'' \<mapsto> v]"
  by (simp add: strip_bos_def)

lemma get_params_lookup:
  assumes "get_params self request = Inr params"
  shows "\<exists>d options. input_dict_of self request = Inr d \<and>
           build_options self (sampling_params request) (response_format request) = Inr options \<and>
           params = (([''model'' \<mapsto> PyStr (model request)] ++ strip_bos d)
                       (''stream'' \<mapsto> PyBool (stream request))) ++ options"
  using assms by (auto simp: get_params_def Let_def split: sum.splits)

lemma payload_lookup:
  assumes "options k = None" "k \<noteq> ''stream''" "k \<noteq> ''model''"
  shows "((([''model'' \<mapsto> m] ++ d)(''stream'' \<mapsto> s)) ++ options) k = d k"
  using assms by (simp add: map_add_def split: option.splits)

subsection \<open>The option mapper\<close>

text \<open>
  C5. The options hold \<open>max_tokens = 512\<close> when the sampling options
  (\<^verbatim>\<open>get_sampling_options\<close>) carry no \<open>max_tokens\<close>, and the value they carry otherwise,
  whatever the response format; and without a response format the mapper returns.
\<close>

theorem build_options_max_tokens:
  "(\<exists>options. build_options self sp None = Inr options) \<and>
   (\<forall>fmt options. build_options self sp fmt = Inr options \<longrightarrow>
      (get_sampling_options self sp ''max_tokens'' = None \<longrightarrow>
         options ''max_tokens'' = Some (PyInt 512)) \<and>
      (\<forall>v. get_sampling_options self sp ''max_tokens'' = Some v \<longrightarrow>
         options ''max_tokens'' = Some v))"
proof -
  have "\<exists>options. build_options self sp None = Inr options"
    by (simp add: build_options_def Let_def)
  moreover have "\<forall>fmt options. build_options self sp fmt = Inr options \<longrightarrow>
      (get_sampling_options self sp ''max_tokens'' = None \<longrightarrow>
         options ''max_tokens'' = Some (PyInt 512)) \<and>
      (\<forall>v. get_sampling_options self sp ''max_tokens'' = Some v \<longrightarrow>
         options ''max_tokens'' = Some v)"
    by (auto dest: build_options_max_tokens_lookup)
  ultimately show ?thesis by blast
qed

theorem build_options_max_tokens_witness:
  "(\<exists>options. build_options example_adapter None None = Inr options \<and>
      options ''max_tokens'' = Some (PyInt 512)) \<and>
   (\<exists>options. build_options example_adapter (Some 64) None = Inr options \<and>
      options ''max_tokens'' = Some (PyInt 64))"
proof -
  have a: "get_sampling_options example_adapter None ''max_tokens'' = None"
    by (simp add: example_adapter_def)
  have b: "get_sampling_options example_adapter (Some 64) ''max_tokens'' = Some (PyInt 64)"
    by (simp add: example_adapter_def)
  from build_options_max_tokens [of example_adapter None] a
  have "\<exists>options. build_options example_adapter None None = Inr options \<and>
      options ''max_tokens'' = Some (PyInt 512)" by blast
  moreover from build_options_max_tokens [of example_adapter "Some 64"] b
  have "\<exists>options. build_options example_adapter (Some 64) None = Inr options \<and>
      options ''max_tokens'' = Some (PyInt 64)" by blast
  ultimately show ?thesis by blast
qed

text \<open>
  C4. For a format tagged \<open>json_schema\<close> with schema \<open>S\<close> the options map
  \<open>response_format\<close> to the dictionary \<open>{type: json_object, schema: S}\<close>; for one tagged
  \<open>grammar\<close> with grammar \<open>G\<close>, to \<open>{type: grammar, grammar: G}\<close>; without a format the
  mapper returns and \<open>response_format\<close> is what the sampling options had there, so it adds
  no such key; any other tag raises the \<^verbatim>\<open>ValueError\<close> "Unknown response format".
\<close>

theorem build_options_response_format:
  "(fmt_type f = ''json_schema'' \<and> json_schema f = Some S \<longrightarrow>
      (\<exists>options. build_options self sp (Some f) = Inr options \<and>
         options ''response_format'' =
           Some (PyDict [(''type'', PyStr ''json_object''), (''schema'', S)]))) \<and>
   (fmt_type f = ''grammar'' \<and> fmt_bnf f = Some G \<longrightarrow>
      (\<exists>options. build_options self sp (Some f) = Inr options \<and>
         options ''response_format'' =
           Some (PyDict [(''type'', PyStr ''grammar''), (''grammar'', G)]))) \<and>
   (\<exists>options. build_options self sp None = Inr options \<and>
      options ''response_format'' = get_sampling_options self sp ''response_format'') \<and>
   (fmt_type f \<noteq> ''json_schema'' \<and> fmt_type f \<noteq> ''grammar'' \<longrightarrow>
      build_options self sp (Some f) =
        Inl (ValueError (''Unknown response format '' @ fmt_type f)))"
  by (simp add: build_options_def Let_def setdefault_other
        ResponseFormatType_json_schema_def ResponseFormatType_grammar_def)

theorem build_options_response_format_witness:
  "(\<exists>options. build_options example_adapter None
        (Some (ResponseFormat ''json_schema'' (Some (PyDict [(''type'', PyStr ''object'')])) None))
        = Inr options \<and>
      options ''response_format'' =
        Some (PyDict [(''type'', PyStr ''json_object''),
                      (''schema'', PyDict [(''type'', PyStr ''object'')])])) \<and>
   (\<exists>options. build_options example_adapter None
        (Some (ResponseFormat ''grammar'' None (Some (PyDict [(''root'', PyStr ''x'')]))))
        = Inr options \<and>
      options ''response_format'' =
        Some (PyDict [(''type'', PyStr ''grammar''),
                      (''grammar'', PyDict [(''root'', PyStr ''x'')])])) \<and>
   build_options example_adapter None (Some (ResponseFormat ''regex'' None None))
     = Inl (ValueError ''Unknown response format regex'')"
  using build_options_response_format
          [where f = "ResponseFormat ''json_schema''
                        (Some (PyDict [(''type'', PyStr ''object'')])) None"
             and S = "PyDict [(''type'', PyStr ''object'')]"
             and self = example_adapter and sp = None]
        build_options_response_format
          [where f = "ResponseFormat ''grammar'' None
                        (Some (PyDict [(''root'', PyStr ''x'')]))"
             and G = "PyDict [(''root'', PyStr ''x'')]"
             and self = example_adapter and sp = None]
        build_options_response_format
          [where f = "ResponseFormat ''regex'' None None"
             and self = example_adapter and sp = None]
  by simp

subsection \<open>Embeddings\<close>

text \<open>
  C9. Whatever the arguments, \<^verbatim>\<open>embeddings\<close> raises \<^verbatim>\<open>NotImplementedError\<close> and has
  called the provider not once.
\<close>

theorem embeddings_not_supported:
  "embeddings self model_id contents = ([], Inl NotImplementedError)"
  by (simp add: embeddings_def)

subsection \<open>The request builder\<close>

text \<open>
  In the next theorems the sampling options are required to carry neither \<open>prompt\<close> nor
  \<open>messages\<close>: the options are merged into the payload last, so an option of that name
  would replace or add the key.
\<close>

text \<open>
  C1. Of a chat request whose payload is built: without media in any message the payload
  has the key \<open>prompt\<close> and not \<open>messages\<close>; with media in some message it has
  \<open>messages\<close> and not \<open>prompt\<close>, and under \<open>messages\<close> is the list of the messages
  converted by \<^verbatim>\<open>convert_message_to_dict\<close>, one for one and in order.
\<close>

theorem get_params_chat_shape:
  assumes "is_ChatCompletionRequest request"
    and "get_params self request = Inr params"
    and "get_sampling_options self (sampling_params request) ''prompt'' = None"
    and "get_sampling_options self (sampling_params request) ''messages'' = None"
  shows "(\<not> request_has_media request \<longrightarrow>
            ''prompt'' \<in> dom params \<and> ''messages'' \<notin> dom params) \<and>
         (request_has_media request \<longrightarrow>
            ''messages'' \<in> dom params \<and> ''prompt'' \<notin> dom params \<and>
            (\<exists>ds. params ''messages'' = Some (PyList ds) \<and>
                  map (convert_message_to_dict self) (messages request) = map Inr ds))"
proof -
  from get_params_lookup [OF assms(2)] obtain d options where
    d: "input_dict_of self request = Inr d" and
    o: "build_options self (sampling_params request) (response_format request) = Inr options" and
    p: "params = (([''model'' \<mapsto> PyStr (model request)] ++ strip_bos d)
                    (''stream'' \<mapsto> PyBool (stream request))) ++ options"
    by blast
  have op: "options ''prompt'' = None"
    using build_options_other [OF o, of "''prompt''"] assms(3) by simp
  have om: "options ''messages'' = None"
    using build_options_other [OF o, of "''messages''"] assms(4) by simp
  have lp: "params ''prompt'' = strip_bos d ''prompt''"
    unfolding p using payload_lookup [of options "''prompt''"] op by simp
  have lm: "params ''messages'' = strip_bos d ''messages''"
    unfolding p using payload_lookup [of options "''messages''"] om by simp
  show ?thesis
  proof (cases "request_has_media request")
    case True
    with input_dict_of_chat_cases [OF assms(1) d] obtain ds where
      c: "convert_messages self (messages request) = Inr ds" and
      e: "d = [''messages'' \<mapsto> PyList ds]" by blast
    from True lp lm e convert_messages_map [OF c] show ?thesis
      by (auto simp: strip_bos_messages)
  next
    case False
    with input_dict_of_chat_cases [OF assms(1) d] obtain q where
      e: "d = [''prompt'' \<mapsto> PyStr q]" by blast
    from False lp lm e show ?thesis
      by (auto simp: strip_bos_prompt)
  qed
qed

theorem get_params_chat_shape_witness:
  "(\<exists>params. get_params example_adapter
        (ChatCompletionRequest ''m'' [Message ''user'' (Single (Text ''hi''))]
           None [] None None None False None) = Inr params \<and>
      ''prompt'' \<in> dom params \<and> ''messages'' \<notin> dom params) \<and>
   (\<exists>params. get_params example_adapter
        (ChatCompletionRequest ''m'' [Message ''user'' (Many [Text ''look'', ImageMedia 3])]
           None [] None None None False None) = Inr params \<and>
      ''messages'' \<in> dom params \<and> ''prompt'' \<notin> dom params)"
proof -
  let ?a = "ChatCompletionRequest ''m'' [Message ''user'' (Single (Text ''hi''))]
              None [] None None None False None :: (nat, nat) request"
  let ?b = "ChatCompletionRequest ''m'' [Message ''user'' (Many [Text ''look'', ImageMedia 3])]
              None [] None None None False None :: (nat, nat) request"
  have ma: "\<not> request_has_media ?a" and mb: "request_has_media ?b"
    by (simp_all add: request_has_media_def)
  have ga: "get_params example_adapter ?a =
      Inr [''model'' \<mapsto> PyStr ''m'', ''prompt'' \<mapsto> PyStr ''Hi'',
           ''stream'' \<mapsto> PyBool False, ''max_tokens'' \<mapsto> PyInt 512]"
    by (simp add: get_params_def input_dict_of_def request_has_media_def strip_bos_def
          build_options_def setdefault_def example_adapter_def BOS_def)
  have gb: "get_params example_adapter ?b =
      Inr [''model'' \<mapsto> PyStr ''m'', ''messages'' \<mapsto> PyList [PyDict [(''role'', PyStr ''user'')]],
           ''stream'' \<mapsto> PyBool False, ''max_tokens'' \<mapsto> PyInt 512]"
    by (simp add: get_params_def input_dict_of_def request_has_media_def strip_bos_def
          build_options_def setdefault_def example_adapter_def BOS_def)
  have s: "get_sampling_options example_adapter None ''prompt'' = None"
          "get_sampling_options example_adapter None ''messages'' = None"
    by (simp_all add: example_adapter_def)
  from get_params_chat_shape [OF _ ga] s ma
  have "\<exists>params. get_params example_adapter ?a = Inr params \<and>
      ''prompt'' \<in> dom params \<and> ''messages'' \<notin> dom params"
    by (simp add: ga)
  moreover from get_params_chat_shape [OF _ gb] s mb
  have "\<exists>params. get_params example_adapter ?b = Inr params \<and>
      ''messages'' \<in> dom params \<and> ''prompt'' \<notin> dom params"
    by (simp add: gb)
  ultimately show ?thesis by blast
qed

text \<open>
  C3. When the branch of the builder has put the rendered prompt \<open>p\<close> under \<open>prompt\<close> and
  the options are built, the payload is built and its prompt is \<open>p\<close> without the marker
  \<open><|begin_of_text|>\<close> if \<open>p\<close> starts with it and \<open>p\<close> otherwise. So one leading
  occurrence is removed: the marker alone becomes the empty string, of two leading markers
  the second stays, and a prompt that does not start with the marker (though it may contain
  it) is unchanged.
\<close>

theorem get_params_strips_bos:
  assumes "input_dict_of self request = Inr d"
    and "d ''prompt'' = Some (PyStr p)"
    and "build_options self (sampling_params request) (response_format request) = Inr options"
    and "get_sampling_options self (sampling_params request) ''prompt'' = None"
  shows "\<exists>params. get_params self request = Inr params \<and>
      params ''prompt'' = Some (PyStr (if prefix BOS p then drop (length BOS) p else p)) \<and>
      (\<forall>r. p = BOS @ r \<longrightarrow> params ''prompt'' = Some (PyStr r)) \<and>
      (p = BOS \<longrightarrow> params ''prompt'' = Some (PyStr [])) \<and>
      (\<forall>r. p = BOS @ BOS @ r \<longrightarrow> params ''prompt'' = Some (PyStr (BOS @ r))) \<and>
      (\<not> prefix BOS p \<longrightarrow> params ''prompt'' = Some (PyStr p))"
proof -
  from assms(1,2) input_dict_of_shape [OF assms(1)] have d: "d = [''prompt'' \<mapsto> PyStr p]"
    by auto
  have o: "options ''prompt'' = None"
    using build_options_other [OF assms(3), of "''prompt''"] assms(4) by simp
  let ?params = "(([''model'' \<mapsto> PyStr (model request)] ++ strip_bos d)
                    (''stream'' \<mapsto> PyBool (stream request))) ++ options"
  have g: "get_params self request = Inr ?params"
    by (simp add: get_params_def Let_def assms(1,3))
  have l: "?params ''prompt'' = Some (PyStr (if prefix BOS p then drop (length BOS) p else p))"
    using payload_lookup [of options "''prompt''" "PyStr (model request)" "strip_bos d"
        "PyBool (stream request)"] o
    by (simp add: d strip_bos_prompt)
  show ?thesis
    using g l by auto
qed

theorem get_params_strips_bos_witness:
  "(\<exists>params. get_params example_adapter
       (CompletionRequest ''m'' (Single (Text ''Hello'')) None None False None) = Inr params \<and>
     params ''prompt'' = Some (PyStr ''Hello'')) \<and>
   (\<exists>params. get_params
       (example_adapter\<lparr>completion_request_to_prompt := (\<lambda>_. Inr (BOS @ BOS @ ''x''))\<rparr>)
       (CompletionRequest ''m'' (Single (Text ''x'')) None None False None) = Inr params \<and>
     params ''prompt'' = Some (PyStr ''<|begin_of_text|>x'')) \<and>
   (\<exists>params. get_params
       (example_adapter\<lparr>completion_request_to_prompt := (\<lambda>_. Inr '' <|begin_of_text|>x'')\<rparr>)
       (CompletionRequest ''m'' (Single (Text ''x'')) None None False None) = Inr params \<and>
     params ''prompt'' = Some (PyStr '' <|begin_of_text|>x''))"
proof -
  let ?r = "CompletionRequest ''m'' (Single (Text ''Hello'')) None None False None
              :: (nat, nat) request"
  let ?x = "CompletionRequest ''m'' (Single (Text ''x'')) None None False None
              :: (nat, nat) request"
  let ?two = "example_adapter\<lparr>completion_request_to_prompt := (\<lambda>_. Inr (BOS @ BOS @ ''x''))\<rparr>"
  let ?sp = "example_adapter\<lparr>completion_request_to_prompt := (\<lambda>_. Inr '' <|begin_of_text|>x'')\<rparr>"
  have i1: "input_dict_of example_adapter ?r = Inr [''prompt'' \<mapsto> PyStr (BOS @ ''Hello'')]"
    by (simp add: input_dict_of_def request_has_media_def example_adapter_def)
  have b1: "build_options example_adapter (sampling_params ?r) (response_format ?r)
             = Inr [''max_tokens'' \<mapsto> PyInt 512]"
    by (simp add: build_options_def setdefault_def example_adapter_def)
  have s1: "get_sampling_options example_adapter (sampling_params ?r) ''prompt'' = None"
    by (simp add: example_adapter_def)
  have i2: "input_dict_of ?two ?x = Inr [''prompt'' \<mapsto> PyStr (BOS @ BOS @ ''x'')]"
    by (simp add: input_dict_of_def request_has_media_def example_adapter_def)
  have b2: "build_options ?two (sampling_params ?x) (response_format ?x)
             = Inr [''max_tokens'' \<mapsto> PyInt 512]"
    by (simp add: build_options_def setdefault_def example_adapter_def)
  have s2: "get_sampling_options ?two (sampling_params ?x) ''prompt'' = None"
    by (simp add: example_adapter_def)
  have i3: "input_dict_of ?sp ?x = Inr [''prompt'' \<mapsto> PyStr '' <|begin_of_text|>x'']"
    by (simp add: input_dict_of_def request_has_media_def example_adapter_def)
  have b3: "build_options ?sp (sampling_params ?x) (response_format ?x)
             = Inr [''max_tokens'' \<mapsto> PyInt 512]"
    by (simp add: build_options_def setdefault_def example_adapter_def)
  have s3: "get_sampling_options ?sp (sampling_params ?x) ''prompt'' = None"
    by (simp add: example_adapter_def)
  have n: "\<not> prefix BOS '' <|begin_of_text|>x''"
    by (simp add: BOS_def)
  from get_params_strips_bos [OF i1 _ b1 s1, of "BOS @ ''Hello''"]
  have a: "\<exists>params. get_params example_adapter ?r = Inr params \<and>
     params ''prompt'' = Some (PyStr ''Hello'')"
    by auto
  from get_params_strips_bos [OF i2 _ b2 s2, of "BOS @ BOS @ ''x''"]
  have b: "\<exists>params. get_params ?two ?x = Inr params \<and>
     params ''prompt'' = Some (PyStr ''<|begin_of_text|>x'')"
    by (auto simp: BOS_def)
  from get_params_strips_bos [OF i3 _ b3 s3, of "'' <|begin_of_text|>x''"] n
  have c: "\<exists>params. get_params ?sp ?x = Inr params \<and>
     params ''prompt'' = Some (PyStr '' <|begin_of_text|>x'')"
    by auto
  from a b c show ?thesis by blast
qed

text \<open>
  C6. Of a completion request: a payload that is built has the key \<open>prompt\<close> and not
  \<open>messages\<close>; and with media in the content the builder raises the \<^verbatim>\<open>AssertionError\<close>
  "Fireworks does not support media for Completion requests", so that the blocking
  dispatcher and the iterated streaming one end with that exception and an empty trace of
  provider calls.
\<close>

theorem get_params_completion_shape:
  assumes "is_CompletionRequest request"
  shows "(\<forall>params. get_params self request = Inr params \<and>
            get_sampling_options self (sampling_params request) ''prompt'' = None \<and>
            get_sampling_options self (sampling_params request) ''messages'' = None \<longrightarrow>
            ''prompt'' \<in> dom params \<and> ''messages'' \<notin> dom params) \<and>
         (request_has_media request \<longrightarrow>
            get_params self request =
              Inl (AssertionError ''Fireworks does not support media for Completion requests'') \<and>
            nonstream_completion self request =
              ([], Inl (AssertionError ''Fireworks does not support media for Completion requests'')) \<and>
            iterate self (StreamCompletion request) =
              ([], [], Some (AssertionError ''Fireworks does not support media for Completion requests'')))"
proof -
  from assms have nc: "\<not> is_ChatCompletionRequest request"
    by (cases request) simp_all
  have a: "''prompt'' \<in> dom params \<and> ''messages'' \<notin> dom params"
    if g: "get_params self request = Inr params"
      and sp: "get_sampling_options self (sampling_params request) ''prompt'' = None"
      and sm: "get_sampling_options self (sampling_params request) ''messages'' = None"
    for params
  proof -
    from get_params_lookup [OF g] obtain d options where
      d: "input_dict_of self request = Inr d" and
      o: "build_options self (sampling_params request) (response_format request) = Inr options" and
      p: "params = (([''model'' \<mapsto> PyStr (model request)] ++ strip_bos d)
                      (''stream'' \<mapsto> PyBool (stream request))) ++ options"
      by blast
    have op: "options ''prompt'' = None"
      using build_options_other [OF o, of "''prompt''"] sp by simp
    have om: "options ''messages'' = None"
      using build_options_other [OF o, of "''messages''"] sm by simp
    have lp: "params ''prompt'' = strip_bos d ''prompt''"
      unfolding p using payload_lookup [of options "''prompt''"] op by simp
    have lm: "params ''messages'' = strip_bos d ''messages''"
      unfolding p using payload_lookup [of options "''messages''"] om by simp
    from input_dict_of_completion_cases [OF nc d] obtain q where
      e: "d = [''prompt'' \<mapsto> PyStr q]" by blast
    from lp lm e show ?thesis
      by (auto simp: strip_bos_prompt)
  qed
  have b: "get_params self request =
             Inl (AssertionError ''Fireworks does not support media for Completion requests'')"
    if "request_has_media request"
    using that nc by (simp add: get_params_def input_dict_of_def)
  show ?thesis
    using a b by (auto simp: nonstream_completion_def)
qed

theorem get_params_completion_shape_witness:
  "(\<exists>params. get_params example_adapter
        (CompletionRequest ''m'' (Single (Text ''Hello'')) None None False None) = Inr params \<and>
      ''prompt'' \<in> dom params \<and> ''messages'' \<notin> dom params) \<and>
   nonstream_completion example_adapter
        (CompletionRequest ''m'' (Many [Text ''a'', ImageMedia 1]) None None False None) =
      ([], Inl (AssertionError ''Fireworks does not support media for Completion requests''))"
proof -
  let ?a = "CompletionRequest ''m'' (Single (Text ''Hello'')) None None False None
              :: (nat, nat) request"
  let ?b = "CompletionRequest ''m'' (Many [Text ''a'', ImageMedia 1]) None None False None
              :: (nat, nat) request"
  have ga: "get_params example_adapter ?a =
      Inr [''model'' \<mapsto> PyStr ''m'', ''prompt'' \<mapsto> PyStr ''Hello'',
           ''stream'' \<mapsto> PyBool False, ''max_tokens'' \<mapsto> PyInt 512]"
    by (simp add: get_params_def input_dict_of_def request_has_media_def strip_bos_def
          build_options_def setdefault_def example_adapter_def BOS_def)
  have s: "get_sampling_options example_adapter None ''prompt'' = None"
          "get_sampling_options example_adapter None ''messages'' = None"
    by (simp_all add: example_adapter_def)
  have mb: "request_has_media ?b"
    by (simp add: request_has_media_def)
  from get_params_completion_shape [of ?a example_adapter] ga s
  have "\<exists>params. get_params example_adapter ?a = Inr params \<and>
      ''prompt'' \<in> dom params \<and> ''messages'' \<notin> dom params"
    by simp
  moreover from get_params_completion_shape [of ?b example_adapter] mb
  have "nonstream_completion example_adapter ?b =
      ([], Inl (AssertionError ''Fireworks does not support media for Completion requests''))"
    by simp
  ultimately show ?thesis by blast
qed

subsection \<open>The dispatcher\<close>

text \<open>
  C2. For a chat request whose payload is built and whose client is made, the blocking
  dispatcher issues exactly one call, \<^verbatim>\<open>chat.completions.acreate\<close> if the payload has the
  key \<open>messages\<close> and \<^verbatim>\<open>completion.acreate\<close> otherwise; the streaming dispatcher, once
  iterated, issues exactly one call, \<^verbatim>\<open>chat.completions.acreate\<close> if the payload has
  \<open>messages\<close> and \<^verbatim>\<open>completion.create\<close> otherwise; both with the payload as arguments.
  And the payload has \<open>messages\<close> exactly when the request has media, provided the
  sampling options carry no \<open>messages\<close>.
\<close>

theorem chat_dispatch_endpoint:
  assumes "is_ChatCompletionRequest request"
    and "get_params self request = Inr params"
    and "get_client self = Inr c"
  shows "fst (nonstream_chat_completion self request) =
           [Call c (if ''messages'' \<in> dom params then ChatCompletionsAcreate
                    else CompletionAcreate) params] \<and>
         fst (iterate self (StreamChatCompletion request)) =
           [Call c (if ''messages'' \<in> dom params then ChatCompletionsAcreate
                    else CompletionCreate) params] \<and>
         (get_sampling_options self (sampling_params request) ''messages'' = None \<longrightarrow>
            (''messages'' \<in> dom params \<longleftrightarrow> request_has_media request))"
proof -
  have 1: "fst (nonstream_chat_completion self request) =
           [Call c (if ''messages'' \<in> dom params then ChatCompletionsAcreate
                    else CompletionAcreate) params]"
    using assms(2,3)
    by (simp add: nonstream_chat_completion_def Let_def split: sum.splits)
  have 2: "fst (iterate self (StreamChatCompletion request)) =
           [Call c (if ''messages'' \<in> dom params then ChatCompletionsAcreate
                    else CompletionCreate) params]"
    using assms(2,3)
    by (simp add: to_async_generator_chat_def Let_def split: sum.splits)
  have 3: "''messages'' \<in> dom params \<longleftrightarrow> request_has_media request"
    if sm: "get_sampling_options self (sampling_params request) ''messages'' = None"
  proof -
    from get_params_lookup [OF assms(2)] obtain d options where
      d: "input_dict_of self request = Inr d" and
      o: "build_options self (sampling_params request) (response_format request) = Inr options" and
      p: "params = (([''model'' \<mapsto> PyStr (model request)] ++ strip_bos d)
                      (''stream'' \<mapsto> PyBool (stream request))) ++ options"
      by blast
    have om: "options ''messages'' = None"
      using build_options_other [OF o, of "''messages''"] sm by simp
    have lm: "params ''messages'' = strip_bos d ''messages''"
      unfolding p using payload_lookup [of options "''messages''"] om by simp
    from input_dict_of_chat_cases [OF assms(1) d] lm show ?thesis
      by (cases "request_has_media request") (auto simp: strip_bos_messages strip_bos_prompt)
  qed
  from 1 2 3 show ?thesis by blast
qed

theorem chat_dispatch_endpoint_witness:
  "fst (nonstream_chat_completion example_adapter
          (ChatCompletionRequest ''m'' [Message ''user'' (Single (Text ''hi''))]
             None [] None None None False None)) =
     [Call (Fireworks ''fw-key'') CompletionAcreate
        [''model'' \<mapsto> PyStr ''m'', ''prompt'' \<mapsto> PyStr ''Hi'',
         ''stream'' \<mapsto> PyBool False, ''max_tokens'' \<mapsto> PyInt 512]] \<and>
   fst (iterate example_adapter (StreamChatCompletion
          (ChatCompletionRequest ''m'' [Message ''user'' (Many [Text ''look'', ImageMedia 3])]
             None [] None None None True None))) =
     [Call (Fireworks ''fw-key'') ChatCompletionsAcreate
        [''model'' \<mapsto> PyStr ''m'',
         ''messages'' \<mapsto> PyList [PyDict [(''role'', PyStr ''user'')]],
         ''stream'' \<mapsto> PyBool True, ''max_tokens'' \<mapsto> PyInt 512]]"
proof -
  let ?a = "ChatCompletionRequest ''m'' [Message ''user'' (Single (Text ''hi''))]
              None [] None None None False None :: (nat, nat) request"
  let ?b = "ChatCompletionRequest ''m'' [Message ''user'' (Many [Text ''look'', ImageMedia 3])]
              None [] None None None True None :: (nat, nat) request"
  have ga: "get_params example_adapter ?a =
      Inr [''model'' \<mapsto> PyStr ''m'', ''prompt'' \<mapsto> PyStr ''Hi'',
           ''stream'' \<mapsto> PyBool False, ''max_tokens'' \<mapsto> PyInt 512]"
    by (simp add: get_params_def input_dict_of_def request_has_media_def strip_bos_def
          build_options_def setdefault_def example_adapter_def BOS_def)
  have gb: "get_params example_adapter ?b =
      Inr [''model'' \<mapsto> PyStr ''m'',
           ''messages'' \<mapsto> PyList [PyDict [(''role'', PyStr ''user'')]],
           ''stream'' \<mapsto> PyBool True, ''max_tokens'' \<mapsto> PyInt 512]"
    by (simp add: get_params_def input_dict_of_def request_has_media_def strip_bos_def
          build_options_def setdefault_def example_adapter_def BOS_def)
  have c: "get_client example_adapter = Inr (Fireworks ''fw-key'')"
    by (simp add: get_client_def example_adapter_def)
  from chat_dispatch_endpoint [OF _ ga c] chat_dispatch_endpoint [OF _ gb c]
  show ?thesis by simp
qed

subsection \<open>Credentials\<close>

lemma missing_key_message_mentions:
  "sublist ''X-LlamaStack-ProviderData'' missing_key_message \<and>
   sublist ''fireworks_api_key'' missing_key_message"
proof -
  have "missing_key_message =
      ''Pass Fireworks API Key in the header '' @ ''X-LlamaStack-ProviderData''
        @ ('' as { '' @ [CHR 0x22] @ ''fireworks_api_key'' @ [CHR 0x22] @ '': <your api key>}'')"
    by (simp add: missing_key_message_def)
  then have 1: "sublist ''X-LlamaStack-ProviderData'' missing_key_message"
    unfolding sublist_def by blast
  have "missing_key_message =
      (''Pass Fireworks API Key in the header X-LlamaStack-ProviderData as { '' @ [CHR 0x22])
        @ ''fireworks_api_key'' @ ([CHR 0x22] @ '': <your api key>}'')"
    by (simp add: missing_key_message_def)
  then have 2: "sublist ''fireworks_api_key'' missing_key_message"
    unfolding sublist_def by blast
  from 1 2 show ?thesis by blast
qed

lemma build_options_valid:
  "build_options self sp fmt = Inr options \<Longrightarrow> response_format_valid fmt"
  by (auto simp: build_options_def Let_def response_format_valid_def
        split: option.splits if_splits)

lemma get_params_valid:
  assumes "get_params self request = Inr params"
  shows "validated request = Inr request"
proof -
  from get_params_lookup [OF assms] obtain options where
    "build_options self (sampling_params request) (response_format request) = Inr options"
    by blast
  then show ?thesis
    by (simp add: validated_def build_options_valid)
qed

lemma completion_no_client:
  assumes "get_client self = Inl e"
  shows "fst (completion self model_id cont sp fmt strm lp) = [] \<and>
         (\<forall>m params. model_store_get_model self model_id = Inr m \<and>
            get_params self (CompletionRequest (provider_resource_id m) cont sp fmt False lp)
              = Inr params \<and> \<not> strm \<longrightarrow>
            completion self model_id cont sp fmt strm lp = ([], Inl e))"
proof -
  have 1: "fst (completion self model_id cont sp fmt strm lp) = []"
    using assms
    by (auto simp: completion_def nonstream_completion_def validated_def Let_def
          split: sum.splits prod.splits)
  have 2: "completion self model_id cont sp fmt strm lp = ([], Inl e)"
    if m: "model_store_get_model self model_id = Inr m"
      and g: "get_params self (CompletionRequest (provider_resource_id m) cont sp fmt False lp)
                = Inr params"
      and s: "\<not> strm"
    for m params
    using get_params_valid [OF g] m g s assms
    by (simp add: completion_def nonstream_completion_def)
  from 1 2 show ?thesis by blast
qed

text \<open>
  C7. A key in the configuration is the key the client class is called with, whatever the
  request carries. Without one, a non-empty key carried by the request is. Where the class
  keeps the key it is given, that key is the client's. Without either (no provider data, or
  provider data with no key or an empty one) \<^verbatim>\<open>_get_client\<close> raises the
  \<^verbatim>\<open>ValueError\<close> whose message names the header \<open>X-LlamaStack-ProviderData\<close> and the
  field \<open>fireworks_api_key\<close>; a blocking \<^verbatim>\<open>completion\<close> then calls the provider not
  once, and ends with that exception whenever the model is resolved and the payload built.
\<close>

theorem get_client_credentials:
  "(config_api_key self = Some k \<longrightarrow>
      get_client self = Fireworks_init self k \<and>
      (\<forall>pd. get_client (self\<lparr>get_request_provider_data := pd\<rparr>) = Fireworks_init self k)) \<and>
   (config_api_key self = None \<and>
    get_request_provider_data self = Some (ProviderData (Some k)) \<and> k \<noteq> [] \<longrightarrow>
      get_client self = Fireworks_init self k) \<and>
   (Fireworks_init self k = Inr (Fireworks k) \<and>
    (config_api_key self = Some k \<or>
     config_api_key self = None \<and>
     get_request_provider_data self = Some (ProviderData (Some k)) \<and> k \<noteq> []) \<longrightarrow>
      get_client self = Inr (Fireworks k)) \<and>
   (config_api_key self = None \<and>
    (get_request_provider_data self = None \<or>
     get_request_provider_data self = Some (ProviderData None) \<or>
     get_request_provider_data self = Some (ProviderData (Some []))) \<longrightarrow>
      get_client self = Inl (ValueError missing_key_message) \<and>
      sublist ''X-LlamaStack-ProviderData'' missing_key_message \<and>
      sublist ''fireworks_api_key'' missing_key_message \<and>
      fst (completion self model_id cont sp fmt False lp) = [] \<and>
      (\<forall>m params. model_store_get_model self model_id = Inr m \<and>
         get_params self (CompletionRequest (provider_resource_id m) cont sp fmt False lp)
           = Inr params \<longrightarrow>
         completion self model_id cont sp fmt False lp =
           ([], Inl (ValueError missing_key_message))))"
proof -
  have 1: "config_api_key self = Some k \<longrightarrow>
      get_client self = Fireworks_init self k \<and>
      (\<forall>pd. get_client (self\<lparr>get_request_provider_data := pd\<rparr>) = Fireworks_init self k)"
    by (simp add: get_client_def)
  have 2: "config_api_key self = None \<and>
    get_request_provider_data self = Some (ProviderData (Some k)) \<and> k \<noteq> [] \<longrightarrow>
      get_client self = Fireworks_init self k"
    by (simp add: get_client_def)
  have 3: "get_client self = Inl (ValueError missing_key_message)"
    if "config_api_key self = None \<and>
    (get_request_provider_data self = None \<or>
     get_request_provider_data self = Some (ProviderData None) \<or>
     get_request_provider_data self = Some (ProviderData (Some [])))"
    using that by (auto simp: get_client_def)
  have 4: "Fireworks_init self k = Inr (Fireworks k) \<and>
    (config_api_key self = Some k \<or>
     config_api_key self = None \<and>
     get_request_provider_data self = Some (ProviderData (Some k)) \<and> k \<noteq> []) \<longrightarrow>
      get_client self = Inr (Fireworks k)"
    using 1 2 by auto
  from 1 2 3 4
    completion_no_client [of self "ValueError missing_key_message" model_id cont sp fmt False lp]
    missing_key_message_mentions
  show ?thesis by blast
qed

theorem get_client_credentials_witness:
  "get_client (example_adapter\<lparr>config_api_key := Some ''static''\<rparr>) = Inr (Fireworks ''static'') \<and>
   get_client example_adapter = Inr (Fireworks ''fw-key'') \<and>
   get_client (example_adapter\<lparr>config_api_key := Some []\<rparr>) = Inl (ExternalError ''no api key'') \<and>
   completion (example_adapter\<lparr>get_request_provider_data := None\<rparr>)
     ''Llama3.1-8B-Instruct'' (Single (Text ''Hello'')) None None False None =
       ([], Inl (ValueError missing_key_message))"
proof -
  let ?s = "example_adapter\<lparr>config_api_key := Some ''static''\<rparr>"
  let ?e = "example_adapter\<lparr>config_api_key := Some []\<rparr>"
  let ?n = "example_adapter\<lparr>get_request_provider_data := None\<rparr>"
  have a: "config_api_key ?s = Some ''static''"
    by simp
  have a': "Fireworks_init ?s ''static'' = Inr (Fireworks ''static'')"
    by (simp add: example_adapter_def)
  have b: "config_api_key example_adapter = None \<and>
      get_request_provider_data example_adapter = Some (ProviderData (Some ''fw-key'')) \<and>
      ''fw-key'' \<noteq> []"
    by (simp add: example_adapter_def)
  have b': "Fireworks_init example_adapter ''fw-key'' = Inr (Fireworks ''fw-key'')"
    by (simp add: example_adapter_def)
  have c: "config_api_key ?n = None \<and> get_request_provider_data ?n = None"
    by (simp add: example_adapter_def)
  have d: "config_api_key ?e = Some []"
    by simp
  have d': "Fireworks_init ?e [] = Inl (ExternalError ''no api key'')"
    by (simp add: example_adapter_def)
  have m: "model_store_get_model ?n ''Llama3.1-8B-Instruct'' =
      Inr (Model ''Llama3.1-8B-Instruct'' ''fireworks/Llama3.1-8B-Instruct'')"
    by (simp add: example_adapter_def)
  have g: "get_params ?n (CompletionRequest
        (provider_resource_id (Model ''Llama3.1-8B-Instruct'' ''fireworks/Llama3.1-8B-Instruct''))
        (Single (Text ''Hello'')) None None False None) =
      Inr [''model'' \<mapsto> PyStr ''fireworks/Llama3.1-8B-Instruct'', ''prompt'' \<mapsto> PyStr ''Hello'',
           ''stream'' \<mapsto> PyBool False, ''max_tokens'' \<mapsto> PyInt 512]"
    by (simp add: get_params_def input_dict_of_def request_has_media_def strip_bos_def
          build_options_def setdefault_def example_adapter_def BOS_def)
  from get_client_credentials [of ?s "''static''"] a a'
  have 1: "get_client ?s = Inr (Fireworks ''static'')" by simp
  from get_client_credentials [of example_adapter "''fw-key''"] b b'
  have 2: "get_client example_adapter = Inr (Fireworks ''fw-key'')" by simp
  from get_client_credentials [of ?e "[]"] d d'
  have 4: "get_client ?e = Inl (ExternalError ''no api key'')" by simp
  from get_client_credentials [of ?n _ "''Llama3.1-8B-Instruct''" "Single (Text ''Hello'')"
         None None None] c m g
  have 3: "completion ?n ''Llama3.1-8B-Instruct'' (Single (Text ''Hello'')) None None False None =
       ([], Inl (ValueError missing_key_message))" by blast
  from 1 2 3 4 show ?thesis by blast
qed

subsection \<open>Scenarios\<close>

lemma default_sampling_options:
  "openai_compat_get_sampling_options (Some SamplingParams_default) =
     [''top_p'' \<mapsto> PyFloat (95 / 100)]"
  by (simp add: openai_compat_get_sampling_options_def SamplingParams_default_def
        set_if_truthy_float_def set_if_truthy_int_def)

text \<open>
  C8, as the specification has it, fails: for the default \<^verbatim>\<open>SamplingParams()\<close> the
  sampling options carry \<open>top_p = 0.95\<close>, and the payload of the one call has five keys,
  not four.
\<close>

theorem scenario_A_default_params_counterexample:
  "completion openai_compat_adapter ''Llama3.1-8B-Instruct'' (Single (Text ''Hello''))
     (Some SamplingParams_default) None False None =
     ([Call (Fireworks ''fw-key'') CompletionAcreate
         [''model'' \<mapsto> PyStr ''fireworks/Llama3.1-8B-Instruct'', ''prompt'' \<mapsto> PyStr ''Hello'',
          ''stream'' \<mapsto> PyBool False, ''top_p'' \<mapsto> PyFloat (95 / 100),
          ''max_tokens'' \<mapsto> PyInt 512]],
      Inr (Response 7)) \<and>
   [''model'' \<mapsto> PyStr ''fireworks/Llama3.1-8B-Instruct'', ''prompt'' \<mapsto> PyStr ''Hello'',
    ''stream'' \<mapsto> PyBool False, ''top_p'' \<mapsto> PyFloat (95 / 100),
    ''max_tokens'' \<mapsto> PyInt 512] \<noteq>
   [''model'' \<mapsto> PyStr ''fireworks/Llama3.1-8B-Instruct'', ''prompt'' \<mapsto> PyStr ''Hello'',
    ''stream'' \<mapsto> PyBool False, ''max_tokens'' \<mapsto> (PyInt 512 :: nat pyval)]"
proof -
  have g: "get_params openai_compat_adapter
        (CompletionRequest ''fireworks/Llama3.1-8B-Instruct'' (Single (Text ''Hello''))
           (Some SamplingParams_default) None False None) =
      Inr [''model'' \<mapsto> PyStr ''fireworks/Llama3.1-8B-Instruct'', ''prompt'' \<mapsto> PyStr ''Hello'',
           ''stream'' \<mapsto> PyBool False, ''top_p'' \<mapsto> PyFloat (95 / 100),
           ''max_tokens'' \<mapsto> PyInt 512]"
    by (simp add: get_params_def input_dict_of_def request_has_media_def strip_bos_def
          build_options_def setdefault_def openai_compat_adapter_def BOS_def
          default_sampling_options)
  have c: "get_client openai_compat_adapter = Inr (Fireworks ''fw-key'')"
    by (simp add: get_client_def openai_compat_adapter_def)
  have 1: "completion openai_compat_adapter ''Llama3.1-8B-Instruct'' (Single (Text ''Hello''))
     (Some SamplingParams_default) None False None =
     ([Call (Fireworks ''fw-key'') CompletionAcreate
         [''model'' \<mapsto> PyStr ''fireworks/Llama3.1-8B-Instruct'', ''prompt'' \<mapsto> PyStr ''Hello'',
          ''stream'' \<mapsto> PyBool False, ''top_p'' \<mapsto> PyFloat (95 / 100),
          ''max_tokens'' \<mapsto> PyInt 512]],
      Inr (Response 7))"
  proof -
    have m: "model_store_get_model openai_compat_adapter ''Llama3.1-8B-Instruct'' =
        Inr (Model ''Llama3.1-8B-Instruct'' ''fireworks/Llama3.1-8B-Instruct'')"
      by (simp add: openai_compat_adapter_def)
    have v: "validated (CompletionRequest ''fireworks/Llama3.1-8B-Instruct''
                 (Single (Text ''Hello'')) (Some SamplingParams_default) None False None
                 :: (SamplingParams, nat) request) =
        Inr (CompletionRequest ''fireworks/Llama3.1-8B-Instruct''
                 (Single (Text ''Hello'')) (Some SamplingParams_default) None False None)"
      by (simp add: validated_def response_format_valid_def)
    have r: "provider_response openai_compat_adapter call = Inr 7" for call
      by (simp add: openai_compat_adapter_def)
    have n: "process_completion_response openai_compat_adapter 7 = Inr 7"
      by (simp add: openai_compat_adapter_def)
    show ?thesis
      by (simp add: completion_def nonstream_completion_def m v g c r n)
  qed
  have 2: "[''model'' \<mapsto> PyStr ''fireworks/Llama3.1-8B-Instruct'', ''prompt'' \<mapsto> PyStr ''Hello'',
    ''stream'' \<mapsto> PyBool False, ''top_p'' \<mapsto> PyFloat (95 / 100),
    ''max_tokens'' \<mapsto> PyInt 512] \<noteq>
   [''model'' \<mapsto> PyStr ''fireworks/Llama3.1-8B-Instruct'', ''prompt'' \<mapsto> PyStr ''Hello'',
    ''stream'' \<mapsto> PyBool False, ''max_tokens'' \<mapsto> (PyInt 512 :: nat pyval)]"
  proof
    assume "[''model'' \<mapsto> PyStr ''fireworks/Llama3.1-8B-Instruct'', ''prompt'' \<mapsto> PyStr ''Hello'',
    ''stream'' \<mapsto> PyBool False, ''top_p'' \<mapsto> PyFloat (95 / 100),
    ''max_tokens'' \<mapsto> PyInt 512] =
   [''model'' \<mapsto> PyStr ''fireworks/Llama3.1-8B-Instruct'', ''prompt'' \<mapsto> PyStr ''Hello'',
    ''stream'' \<mapsto> PyBool False, ''max_tokens'' \<mapsto> (PyInt 512 :: nat pyval)]"
    then have "[''model'' \<mapsto> PyStr ''fireworks/Llama3.1-8B-Instruct'', ''prompt'' \<mapsto> PyStr ''Hello'',
    ''stream'' \<mapsto> PyBool False, ''top_p'' \<mapsto> PyFloat (95 / 100),
    ''max_tokens'' \<mapsto> PyInt 512] ''top_p'' =
   [''model'' \<mapsto> PyStr ''fireworks/Llama3.1-8B-Instruct'', ''prompt'' \<mapsto> PyStr ''Hello'',
    ''stream'' \<mapsto> PyBool False, ''max_tokens'' \<mapsto> (PyInt 512 :: nat pyval)] ''top_p''"
      by (rule arg_cong)
    then show False by simp
  qed
  from 1 2 show ?thesis by blast
qed

text \<open>
  C8, amended. A blocking completion of the content "Hello" without a response format, with
  a renderer that returns "Hello" with or without the leading marker: the payload is
  \<open>{model: the provider resource id, prompt: Hello, stream: False}\<close> overlaid with the
  sampling options, to which \<open>max_tokens = 512\<close> is added when they carry none; one call of
  \<^verbatim>\<open>completion.acreate\<close> is made with it, and the normalised response is returned. With
  no sampling option the payload has the four keys \<open>model\<close>, \<open>prompt\<close>, \<open>stream\<close>,
  \<open>max_tokens\<close>; with the options of the default parameters it has \<open>top_p\<close> too.
\<close>

theorem scenario_A:
  assumes "model_store_get_model self model_id = Inr m"
    and "completion_request_to_prompt self
           (CompletionRequest (provider_resource_id m) (Single (Text ''Hello'')) sp None False lp)
         = Inr ''Hello'' \<or>
         completion_request_to_prompt self
           (CompletionRequest (provider_resource_id m) (Single (Text ''Hello'')) sp None False lp)
         = Inr (BOS @ ''Hello'')"
    and "get_client self = Inr c"
    and "provider_response self
           (Call c CompletionAcreate
              ([''model'' \<mapsto> PyStr (provider_resource_id m), ''prompt'' \<mapsto> PyStr ''Hello'',
                ''stream'' \<mapsto> PyBool False]
               ++ setdefault (get_sampling_options self sp) ''max_tokens'' (PyInt 512))) = Inr r"
    and "process_completion_response self r = Inr n"
  shows "get_params self
           (CompletionRequest (provider_resource_id m) (Single (Text ''Hello'')) sp None False lp) =
           Inr ([''model'' \<mapsto> PyStr (provider_resource_id m), ''prompt'' \<mapsto> PyStr ''Hello'',
                 ''stream'' \<mapsto> PyBool False]
                ++ setdefault (get_sampling_options self sp) ''max_tokens'' (PyInt 512)) \<and>
         completion self model_id (Single (Text ''Hello'')) sp None False lp =
           ([Call c CompletionAcreate
               ([''model'' \<mapsto> PyStr (provider_resource_id m), ''prompt'' \<mapsto> PyStr ''Hello'',
                 ''stream'' \<mapsto> PyBool False]
                ++ setdefault (get_sampling_options self sp) ''max_tokens'' (PyInt 512))],
            Inr (Response n)) \<and>
         (get_sampling_options self sp = Map.empty \<longrightarrow>
            [''model'' \<mapsto> PyStr (provider_resource_id m), ''prompt'' \<mapsto> PyStr ''Hello'',
             ''stream'' \<mapsto> PyBool False]
            ++ setdefault (get_sampling_options self sp) ''max_tokens'' (PyInt 512) =
            [''model'' \<mapsto> PyStr (provider_resource_id m), ''prompt'' \<mapsto> PyStr ''Hello'',
             ''stream'' \<mapsto> PyBool False, ''max_tokens'' \<mapsto> PyInt 512]) \<and>
         (get_sampling_options self sp = [''top_p'' \<mapsto> PyFloat (95 / 100)] \<longrightarrow>
            [''model'' \<mapsto> PyStr (provider_resource_id m), ''prompt'' \<mapsto> PyStr ''Hello'',
             ''stream'' \<mapsto> PyBool False]
            ++ setdefault (get_sampling_options self sp) ''max_tokens'' (PyInt 512) =
            [''model'' \<mapsto> PyStr (provider_resource_id m), ''prompt'' \<mapsto> PyStr ''Hello'',
             ''stream'' \<mapsto> PyBool False, ''top_p'' \<mapsto> PyFloat (95 / 100),
             ''max_tokens'' \<mapsto> PyInt 512])"
proof -
  let ?request = "CompletionRequest (provider_resource_id m) (Single (Text ''Hello'')) sp None False lp"
  let ?payload = "[''model'' \<mapsto> PyStr (provider_resource_id m), ''prompt'' \<mapsto> PyStr ''Hello'',
                   ''stream'' \<mapsto> PyBool False]
                  ++ setdefault (get_sampling_options self sp) ''max_tokens'' (PyInt 512)"
  have o: "build_options self sp None =
             Inr (setdefault (get_sampling_options self sp) ''max_tokens'' (PyInt 512))"
    by (simp add: build_options_def)
  have i: "\<exists>p. input_dict_of self ?request = Inr [''prompt'' \<mapsto> PyStr p] \<and>
             (p = ''Hello'' \<or> p = BOS @ ''Hello'')"
    using assms(2) by (auto simp: input_dict_of_def request_has_media_def)
  then obtain p where ip: "input_dict_of self ?request = Inr [''prompt'' \<mapsto> PyStr p]"
    and pp: "p = ''Hello'' \<or> p = BOS @ ''Hello''" by blast
  have s: "strip_bos [''prompt'' \<mapsto> PyStr p] = [''prompt'' \<mapsto> PyStr ''Hello'' :: 'b pyval]"
    using pp by (auto simp: strip_bos_prompt BOS_def)
  have g: "get_params self ?request = Inr ?payload"
    by (simp add: get_params_def ip s o)
  have v: "validated ?request = Inr ?request"
    by (simp add: validated_def response_format_valid_def)
  have d: "completion self model_id (Single (Text ''Hello'')) sp None False lp =
          ([Call c CompletionAcreate ?payload], Inr (Response n))"
    using assms(4,5)
    by (simp add: completion_def nonstream_completion_def assms(1,3) g v)
  have e: "get_sampling_options self sp = Map.empty \<longrightarrow>
            ?payload =
            [''model'' \<mapsto> PyStr (provider_resource_id m), ''prompt'' \<mapsto> PyStr ''Hello'',
             ''stream'' \<mapsto> PyBool False, ''max_tokens'' \<mapsto> PyInt 512]"
    by (simp add: setdefault_def)
  have f: "get_sampling_options self sp = [''top_p'' \<mapsto> PyFloat (95 / 100)] \<longrightarrow>
            ?payload =
            [''model'' \<mapsto> PyStr (provider_resource_id m), ''prompt'' \<mapsto> PyStr ''Hello'',
             ''stream'' \<mapsto> PyBool False, ''top_p'' \<mapsto> PyFloat (95 / 100),
             ''max_tokens'' \<mapsto> PyInt 512]"
    by (simp add: setdefault_def)
  from g d e f show ?thesis by blast
qed

theorem scenario_A_witness:
  "completion example_adapter ''Llama3.1-8B-Instruct'' (Single (Text ''Hello'')) (Some 0) None False None =
     ([Call (Fireworks ''fw-key'') CompletionAcreate
         [''model'' \<mapsto> PyStr ''fireworks/Llama3.1-8B-Instruct'', ''prompt'' \<mapsto> PyStr ''Hello'',
          ''stream'' \<mapsto> PyBool False, ''max_tokens'' \<mapsto> PyInt 512]],
      Inr (Response 7))"
proof -
  have 1: "model_store_get_model example_adapter ''Llama3.1-8B-Instruct'' =
      Inr (Model ''Llama3.1-8B-Instruct'' ''fireworks/Llama3.1-8B-Instruct'')"
    by (simp add: example_adapter_def)
  have 2: "get_sampling_options example_adapter (Some 0) = Map.empty"
    by (simp add: example_adapter_def)
  have 3: "completion_request_to_prompt example_adapter
           (CompletionRequest (provider_resource_id (Model ''Llama3.1-8B-Instruct'' ''fireworks/Llama3.1-8B-Instruct''))
              (Single (Text ''Hello'')) (Some 0) None False None)
         = Inr ''Hello'' \<or>
         completion_request_to_prompt example_adapter
           (CompletionRequest (provider_resource_id (Model ''Llama3.1-8B-Instruct'' ''fireworks/Llama3.1-8B-Instruct''))
              (Single (Text ''Hello'')) (Some 0) None False None)
         = Inr (BOS @ ''Hello'')"
    by (simp add: example_adapter_def)
  have 4: "get_client example_adapter = Inr (Fireworks ''fw-key'')"
    by (simp add: get_client_def example_adapter_def)
  have 5: "provider_response example_adapter
           (Call (Fireworks ''fw-key'') CompletionAcreate
              ([''model'' \<mapsto> PyStr (provider_resource_id (Model ''Llama3.1-8B-Instruct'' ''fireworks/Llama3.1-8B-Instruct'')),
               ''prompt'' \<mapsto> PyStr ''Hello'', ''stream'' \<mapsto> PyBool False]
               ++ setdefault (get_sampling_options example_adapter (Some 0)) ''max_tokens'' (PyInt 512)))
           = Inr 7"
    by (simp add: example_adapter_def)
  have 6: "process_completion_response example_adapter 7 = Inr 7"
    by (simp add: example_adapter_def)
  from scenario_A [OF 1 3 4 5 6] 2 show ?thesis by (simp add: setdefault_def)
qed

subsection \<open>Deferred errors of the streaming paths\<close>

text \<open>
  C10, as stated, fails: a response format with an unknown tag is refused when the request
  object is made, before \<^verbatim>\<open>stream\<close> is looked at, so the streaming call itself raises
  and returns no generator.
\<close>

theorem streaming_unknown_format_counterexample:
  "completion example_adapter ''Llama3.1-8B-Instruct'' (Single (Text ''Hello'')) None
     (Some (ResponseFormat ''regex'' None None)) True None =
     ([], Inl (ValidationError ''response_format''))"
  by (simp add: completion_def validated_def response_format_valid_def example_adapter_def
        ResponseFormatType_json_schema_def ResponseFormatType_grammar_def)

text \<open>
  C10, amended. Once the model is resolved: with a response format that the request class
  accepts, \<^verbatim>\<open>completion\<close> and \<^verbatim>\<open>chat_completion\<close> with \<open>stream = True\<close> return a
  generator and no exception, whatever the credentials and the content; with one it
  refuses, they raise at the call, streaming or not. An exception of the builder (media in
  a completion request) appears when the generator is iterated, before anything is yielded
  and with no provider call. With a missing credential the iterated generator makes no
  provider call and yields what the normaliser makes of an input that fails at once with
  the credential's exception; it ends with that exception when the normaliser passes the
  failure on, after whatever the normaliser yields before it reads its input. The blocking
  dispatchers raise both kinds of exception with no provider call made.
\<close>

theorem streaming_defers_errors:
  assumes "model_store_get_model self model_id = Inr m"
  shows "(response_format_valid fmt \<longrightarrow>
            completion self model_id cont sp fmt True lp =
              ([], Inr (Generator (StreamCompletion
                     (CompletionRequest (provider_resource_id m) cont sp fmt True lp)))) \<and>
            chat_completion self model_id msgs sp tls choice tpf fmt True lp =
              ([], Inr (Generator (StreamChatCompletion
                     (ChatCompletionRequest (provider_resource_id m) msgs sp
                        (case tls of None \<Rightarrow> [] | Some ts \<Rightarrow> ts) choice tpf fmt True lp))))) \<and>
         (\<not> response_format_valid fmt \<longrightarrow>
            completion self model_id cont sp fmt strm lp =
              ([], Inl (ValidationError ''response_format'')) \<and>
            chat_completion self model_id msgs sp tls choice tpf fmt strm lp =
              ([], Inl (ValidationError ''response_format''))) \<and>
         (\<forall>request e. get_params self request = Inl e \<longrightarrow>
            iterate self (StreamCompletion request) = ([], [], Some e) \<and>
            iterate self (StreamChatCompletion request) = ([], [], Some e) \<and>
            nonstream_completion self request = ([], Inl e) \<and>
            nonstream_chat_completion self request = ([], Inl e)) \<and>
         (\<forall>request params e. get_params self request = Inr params \<and> get_client self = Inl e \<longrightarrow>
            nonstream_completion self request = ([], Inl e) \<and>
            nonstream_chat_completion self request = ([], Inl e) \<and>
            iterate self (StreamCompletion request) =
              ([], process_completion_stream_response self ([], Some e)) \<and>
            iterate self (StreamChatCompletion request) =
              ([], process_chat_completion_stream_response self ([], Some e)) \<and>
            (snd (process_completion_stream_response self ([], Some e)) = Some e \<longrightarrow>
               snd (snd (iterate self (StreamCompletion request))) = Some e) \<and>
            (snd (process_chat_completion_stream_response self ([], Some e)) = Some e \<longrightarrow>
               snd (snd (iterate self (StreamChatCompletion request))) = Some e))"
proof -
  have 1: "response_format_valid fmt \<longrightarrow>
            completion self model_id cont sp fmt True lp =
              ([], Inr (Generator (StreamCompletion
                     (CompletionRequest (provider_resource_id m) cont sp fmt True lp)))) \<and>
            chat_completion self model_id msgs sp tls choice tpf fmt True lp =
              ([], Inr (Generator (StreamChatCompletion
                     (ChatCompletionRequest (provider_resource_id m) msgs sp
                        (case tls of None \<Rightarrow> [] | Some ts \<Rightarrow> ts) choice tpf fmt True lp))))"
    by (simp add: completion_def chat_completion_def validated_def assms)
  have 2: "\<not> response_format_valid fmt \<longrightarrow>
            completion self model_id cont sp fmt strm lp =
              ([], Inl (ValidationError ''response_format'')) \<and>
            chat_completion self model_id msgs sp tls choice tpf fmt strm lp =
              ([], Inl (ValidationError ''response_format''))"
    by (simp add: completion_def chat_completion_def validated_def assms)
  have 3: "iterate self (StreamCompletion request) = ([], [], Some e) \<and>
            iterate self (StreamChatCompletion request) = ([], [], Some e) \<and>
            nonstream_completion self request = ([], Inl e) \<and>
            nonstream_chat_completion self request = ([], Inl e)"
    if "get_params self request = Inl e" for request e
    using that by (simp add: nonstream_completion_def nonstream_chat_completion_def)
  have 4: "nonstream_completion self request = ([], Inl e) \<and>
            nonstream_chat_completion self request = ([], Inl e) \<and>
            iterate self (StreamCompletion request) =
              ([], process_completion_stream_response self ([], Some e)) \<and>
            iterate self (StreamChatCompletion request) =
              ([], process_chat_completion_stream_response self ([], Some e)) \<and>
            (snd (process_completion_stream_response self ([], Some e)) = Some e \<longrightarrow>
               snd (snd (iterate self (StreamCompletion request))) = Some e) \<and>
            (snd (process_chat_completion_stream_response self ([], Some e)) = Some e \<longrightarrow>
               snd (snd (iterate self (StreamChatCompletion request))) = Some e)"
    if "get_params self request = Inr params \<and> get_client self = Inl e" for request params e
    using that
    by (simp add: nonstream_completion_def nonstream_chat_completion_def
          to_async_generator_completion_def to_async_generator_chat_def)
  from 1 2 3 4 show ?thesis by blast
qed

theorem streaming_defers_errors_witness:
  "completion (example_adapter\<lparr>get_request_provider_data := None\<rparr>)
     ''Llama3.1-8B-Instruct'' (Single (Text ''Hello'')) None None True None =
     ([], Inr (Generator (StreamCompletion
        (CompletionRequest ''fireworks/Llama3.1-8B-Instruct'' (Single (Text ''Hello''))
           None None True None)))) \<and>
   iterate (example_adapter\<lparr>get_request_provider_data := None\<rparr>)
     (StreamCompletion
        (CompletionRequest ''fireworks/Llama3.1-8B-Instruct'' (Single (Text ''Hello''))
           None None True None)) =
     ([], [], Some (ValueError missing_key_message)) \<and>
   iterate (example_adapter\<lparr>get_request_provider_data := None\<rparr>)
     (StreamChatCompletion
        (ChatCompletionRequest ''fireworks/Llama3.1-8B-Instruct''
           [Message ''user'' (Single (Text ''hi''))] None [] None None None True None)) =
     ([], [0], Some (ValueError missing_key_message)) \<and>
   iterate example_adapter
     (StreamCompletion
        (CompletionRequest ''fireworks/Llama3.1-8B-Instruct'' (Single (ImageMedia 3))
           None None True None)) =
     ([], [], Some (AssertionError ''Fireworks does not support media for Completion requests''))"
proof -
  let ?n = "example_adapter\<lparr>get_request_provider_data := None\<rparr>"
  let ?a = "CompletionRequest ''fireworks/Llama3.1-8B-Instruct'' (Single (Text ''Hello''))
              None None True None :: (nat, nat) request"
  let ?b = "ChatCompletionRequest ''fireworks/Llama3.1-8B-Instruct''
              [Message ''user'' (Single (Text ''hi''))] None [] None None None True None
              :: (nat, nat) request"
  let ?c = "CompletionRequest ''fireworks/Llama3.1-8B-Instruct'' (Single (ImageMedia 3))
              None None True None :: (nat, nat) request"
  have m: "model_store_get_model ?n ''Llama3.1-8B-Instruct'' =
      Inr (Model ''Llama3.1-8B-Instruct'' ''fireworks/Llama3.1-8B-Instruct'')"
    by (simp add: example_adapter_def)
  have m': "model_store_get_model example_adapter ''Llama3.1-8B-Instruct'' =
      Inr (Model ''Llama3.1-8B-Instruct'' ''fireworks/Llama3.1-8B-Instruct'')"
    by (simp add: example_adapter_def)
  have v: "response_format_valid (None :: nat response_format option)"
    by (simp add: response_format_valid_def)
  have ga: "get_params ?n ?a =
      Inr [''model'' \<mapsto> PyStr ''fireworks/Llama3.1-8B-Instruct'', ''prompt'' \<mapsto> PyStr ''Hello'',
           ''stream'' \<mapsto> PyBool True, ''max_tokens'' \<mapsto> PyInt 512]"
    by (simp add: get_params_def input_dict_of_def request_has_media_def strip_bos_def
          build_options_def setdefault_def example_adapter_def BOS_def)
  have gb: "get_params ?n ?b =
      Inr [''model'' \<mapsto> PyStr ''fireworks/Llama3.1-8B-Instruct'', ''prompt'' \<mapsto> PyStr ''Hi'',
           ''stream'' \<mapsto> PyBool True, ''max_tokens'' \<mapsto> PyInt 512]"
    by (simp add: get_params_def input_dict_of_def request_has_media_def strip_bos_def
          build_options_def setdefault_def example_adapter_def BOS_def)
  have gc: "get_params example_adapter ?c =
      Inl (AssertionError ''Fireworks does not support media for Completion requests'')"
    by (simp add: get_params_def input_dict_of_def request_has_media_def)
  have c: "get_client ?n = Inl (ValueError missing_key_message)"
    by (simp add: get_client_def example_adapter_def)
  have p: "process_completion_stream_response ?n ([], Some (ValueError missing_key_message)) =
      ([], Some (ValueError missing_key_message))"
    by (simp add: example_adapter_def)
  have q: "process_chat_completion_stream_response ?n ([], Some (ValueError missing_key_message)) =
      ([0], Some (ValueError missing_key_message))"
    by (simp add: example_adapter_def)
  from streaming_defers_errors [OF m, of None "Single (Text ''Hello'')" None None] v ga c p
  have 1: "completion ?n ''Llama3.1-8B-Instruct'' (Single (Text ''Hello'')) None None True None =
     ([], Inr (Generator (StreamCompletion ?a))) \<and>
     iterate ?n (StreamCompletion ?a) = ([], [], Some (ValueError missing_key_message))"
    by simp
  from streaming_defers_errors [OF m] gb c q
  have 2: "iterate ?n (StreamChatCompletion ?b) = ([], [0], Some (ValueError missing_key_message))"
    by simp
  from streaming_defers_errors [OF m'] gc
  have 3: "iterate example_adapter (StreamCompletion ?c) =
     ([], [], Some (AssertionError ''Fireworks does not support media for Completion requests''))"
    by blast
  from 1 2 3 show ?thesis by blast
qed

end
